theory Spec2Isabelle
  imports Main
begin

section \<open>The datacube extension of pystac: property mappings and their typed views\<close>

text \<open>
  The module \<^verbatim>\<open>pystac/extensions/datacube.py\<close> is a layer of typed accessors over
  Python dictionaries that hold JSON documents. A view object (\<^verbatim>\<open>Dimension\<close>,
  \<^verbatim>\<open>Variable\<close>) keeps a reference to one dictionary in its attribute
  \<^verbatim>\<open>properties\<close>; every getter reads that dictionary and every setter writes it.
\<close>

subsection \<open>Values and property mappings\<close>

text \<open>
  The values of a \<^verbatim>\<open>Dict[str, Any]\<close> that holds a JSON document. Python's
  \<^verbatim>\<open>None\<close> is JSON's null: both are \<open>JNull\<close>. The module never inspects
  a number, so the carrier of numbers is a type parameter (Python's ints and floats
  are instances). A dictionary is a map from keys to values: a key is present when the
  map is \<open>Some\<close> there, also when the value stored is \<open>JNull\<close>.
\<close>

datatype 'n json =
    JNull
  | JBool bool
  | JNum 'n
  | JStr string
  | JList "'n json list"
  | JObj "string \<Rightarrow> 'n json option"

type_synonym 'n props = "string \<Rightarrow> 'n json option"

text \<open>
  \<^verbatim>\<open>d.get(key)\<close>: the value stored under the key, and \<^verbatim>\<open>None\<close> when the key is
  absent. A caller of \<^verbatim>\<open>get\<close> cannot tell an absent key from a stored
  \<^verbatim>\<open>None\<close>.
\<close>

definition dict_get :: "'n props \<Rightarrow> string \<Rightarrow> 'n json" where
  "dict_get d key = (case d key of None \<Rightarrow> JNull | Some v \<Rightarrow> v)"

text \<open>
  The exceptions the module raises or provokes. \<^verbatim>\<open>RequiredPropertyMissing(obj, prop)\<close>
  carries the context and the name of the field; \<^verbatim>\<open>ExtensionTypeError\<close> carries
  its message; \<^verbatim>\<open>TypeError\<close> is what Python raises for a call with the wrong
  number of arguments.
\<close>

datatype error =
    RequiredPropertyMissing string string
  | ExtensionTypeError string
  | TypeError

text \<open>
  A call \<^verbatim>\<open>d.get(key, *rest)\<close> with its positional arguments after the key:
  \<^verbatim>\<open>dict.get\<close> takes the key and at most one default, and a call with more
  arguments raises \<^verbatim>\<open>TypeError\<close> before any lookup.
\<close>

fun dict_get_call :: "'n props \<Rightarrow> string \<Rightarrow> 'n json list \<Rightarrow> error + 'n json" where
  "dict_get_call d key [] = Inr (dict_get d key)"
| "dict_get_call d key [dflt] = Inr (case d key of None \<Rightarrow> dflt | Some v \<Rightarrow> v)"
| "dict_get_call d key (dflt # x # rest) = Inl TypeError"

text \<open>
  Modelled from the spec: \<^verbatim>\<open>pystac.utils.get_required\<close> is imported by the module and
  its source is not part of it. The specification gives its contract: it returns the
  value, and fails with \<^verbatim>\<open>RequiredPropertyMissing(context, key)\<close> when the value
  is absent or null. The module passes it the result of \<^verbatim>\<open>properties.get(key)\<close>.
\<close>

definition get_required :: "'n json \<Rightarrow> string \<Rightarrow> string \<Rightarrow> error + 'n json" where
  "get_required option obj prp =
     (if option = JNull then Inl (RequiredPropertyMissing obj prp) else Inr option)"

subsection \<open>The keys\<close>

abbreviation DIM_TYPE_PROP :: string where "DIM_TYPE_PROP \<equiv> ''type''"
abbreviation DIM_DESC_PROP :: string where "DIM_DESC_PROP \<equiv> ''description''"
abbreviation DIM_AXIS_PROP :: string where "DIM_AXIS_PROP \<equiv> ''axis''"
abbreviation DIM_EXTENT_PROP :: string where "DIM_EXTENT_PROP \<equiv> ''extent''"
abbreviation DIM_VALUES_PROP :: string where "DIM_VALUES_PROP \<equiv> ''values''"
abbreviation DIM_STEP_PROP :: string where "DIM_STEP_PROP \<equiv> ''step''"
abbreviation DIM_REF_SYS_PROP :: string where "DIM_REF_SYS_PROP \<equiv> ''reference_system''"
abbreviation DIM_UNIT_PROP :: string where "DIM_UNIT_PROP \<equiv> ''unit''"

abbreviation (input) VAR_TYPE_PROP :: string where "VAR_TYPE_PROP \<equiv> ''type''"
abbreviation (input) VAR_DESC_PROP :: string where "VAR_DESC_PROP \<equiv> ''description''"
abbreviation (input) VAR_DIMS_PROP :: string where "VAR_DIMS_PROP \<equiv> ''dimensions''"
abbreviation (input) VAR_EXTENT_PROP :: string where "VAR_EXTENT_PROP \<equiv> ''extent''"
abbreviation (input) VAR_STEP_PROP :: string where "VAR_STEP_PROP \<equiv> ''step''"
abbreviation (input) VAR_UNIT_PROP :: string where "VAR_UNIT_PROP \<equiv> ''unit''"
abbreviation (input) VAR_SHAPE_PROP :: string where "VAR_SHAPE_PROP \<equiv> ''shape''"
abbreviation (input) VAR_CHUNKS_PROP :: string where "VAR_CHUNKS_PROP \<equiv> ''chunks''"
abbreviation (input) VAR_ATTRS_PROP :: string where "VAR_ATTRS_PROP \<equiv> ''attrs''"

subsection \<open>Dimension views\<close>

text \<open>
  A dimension view is an object of one of the four subclasses of \<^verbatim>\<open>Dimension\<close>;
  its only attribute is \<^verbatim>\<open>properties\<close>. The class of an object never changes.
  A setter mutates the dictionary in place: here it returns the view with the
  updated dictionary. Python does not enforce the annotation of a setter's argument,
  so every setter takes any value, \<^verbatim>\<open>None\<close> included.
\<close>

datatype dim_class =
    HorizontalSpatialDimension
  | VerticalSpatialDimension
  | TemporalDimension
  | AdditionalDimension

record 'n Dimension =
  cls :: dim_class
  properties :: "'n props"

paragraph \<open>class Dimension\<close>

definition Dimension_dim_type :: "'n Dimension \<Rightarrow> error + 'n json" where
  "Dimension_dim_type self =
     get_required (dict_get (properties self) DIM_TYPE_PROP) ''cube:dimension'' DIM_TYPE_PROP"

definition Dimension_dim_type_setter :: "'n json \<Rightarrow> 'n Dimension \<Rightarrow> 'n Dimension" where
  "Dimension_dim_type_setter v self = self\<lparr>properties := (properties self)(DIM_TYPE_PROP \<mapsto> v)\<rparr>"

definition Dimension_description :: "'n Dimension \<Rightarrow> 'n json" where
  "Dimension_description self = dict_get (properties self) DIM_DESC_PROP"

definition Dimension_description_setter :: "'n json \<Rightarrow> 'n Dimension \<Rightarrow> 'n Dimension" where
  "Dimension_description_setter v self =
     (if v = JNull then self\<lparr>properties := (properties self)(DIM_DESC_PROP := None)\<rparr>
      else self\<lparr>properties := (properties self)(DIM_DESC_PROP \<mapsto> v)\<rparr>)"

definition Dimension_to_dict :: "'n Dimension \<Rightarrow> 'n props" where
  "Dimension_to_dict self = properties self"

definition Dimension_from_dict :: "'n props \<Rightarrow> error + 'n Dimension" where
  "Dimension_from_dict d =
     (let dim_type = dict_get d DIM_TYPE_PROP in
      if dim_type = JNull then Inl (RequiredPropertyMissing ''cube_dimension'' DIM_TYPE_PROP)
      else if dim_type = JStr ''spatial'' then
        (let axis = dict_get d DIM_AXIS_PROP in
         if axis = JNull then Inl (RequiredPropertyMissing ''cube_dimension'' DIM_AXIS_PROP)
         else if axis = JStr ''z'' then
           Inr \<lparr>cls = VerticalSpatialDimension, properties = d\<rparr>
         else
           Inr \<lparr>cls = HorizontalSpatialDimension, properties = d\<rparr>)
      else if dim_type = JStr ''temporal'' then
        Inr \<lparr>cls = TemporalDimension, properties = d\<rparr>
      else
        Inr \<lparr>cls = AdditionalDimension, properties = d\<rparr>)"

text \<open>
  The accessors of the subclasses follow, class by class and in the order of the
  source. A getter of an optional field is \<^verbatim>\<open>properties.get(key)\<close>; its setter
  pops the key when the value assigned is \<^verbatim>\<open>None\<close> and stores the value
  otherwise. The setters of \<^verbatim>\<open>step\<close> and of the required fields store what they
  are given.
\<close>

paragraph \<open>class HorizontalSpatialDimension\<close>

definition HorizontalSpatialDimension_axis :: "'n Dimension \<Rightarrow> error + 'n json" where
  "HorizontalSpatialDimension_axis self =
     get_required (dict_get (properties self) DIM_AXIS_PROP) ''cube:dimension'' DIM_AXIS_PROP"

definition HorizontalSpatialDimension_axis_setter :: "'n json \<Rightarrow> 'n Dimension \<Rightarrow> 'n Dimension" where
  "HorizontalSpatialDimension_axis_setter v self = self\<lparr>properties := (properties self)(DIM_TYPE_PROP \<mapsto> v)\<rparr>"

definition HorizontalSpatialDimension_extent :: "'n Dimension \<Rightarrow> error + 'n json" where
  "HorizontalSpatialDimension_extent self =
     get_required (dict_get (properties self) DIM_EXTENT_PROP) ''cube:dimension'' DIM_EXTENT_PROP"

definition HorizontalSpatialDimension_extent_setter :: "'n json \<Rightarrow> 'n Dimension \<Rightarrow> 'n Dimension" where
  "HorizontalSpatialDimension_extent_setter v self = self\<lparr>properties := (properties self)(DIM_EXTENT_PROP \<mapsto> v)\<rparr>"

definition HorizontalSpatialDimension_values :: "'n Dimension \<Rightarrow> 'n json" where
  "HorizontalSpatialDimension_values self = dict_get (properties self) DIM_VALUES_PROP"

definition HorizontalSpatialDimension_values_setter :: "'n json \<Rightarrow> 'n Dimension \<Rightarrow> 'n Dimension" where
  "HorizontalSpatialDimension_values_setter v self =
     (if v = JNull then self\<lparr>properties := (properties self)(DIM_VALUES_PROP := None)\<rparr>
      else self\<lparr>properties := (properties self)(DIM_VALUES_PROP \<mapsto> v)\<rparr>)"

definition HorizontalSpatialDimension_step :: "'n Dimension \<Rightarrow> 'n json" where
  "HorizontalSpatialDimension_step self = dict_get (properties self) DIM_STEP_PROP"

definition HorizontalSpatialDimension_step_setter :: "'n json \<Rightarrow> 'n Dimension \<Rightarrow> 'n Dimension" where
  "HorizontalSpatialDimension_step_setter v self = self\<lparr>properties := (properties self)(DIM_STEP_PROP \<mapsto> v)\<rparr>"

definition HorizontalSpatialDimension_clear_step :: "'n Dimension \<Rightarrow> 'n Dimension" where
  "HorizontalSpatialDimension_clear_step self = self\<lparr>properties := (properties self)(DIM_STEP_PROP := None)\<rparr>"

definition HorizontalSpatialDimension_reference_system :: "'n Dimension \<Rightarrow> 'n json" where
  "HorizontalSpatialDimension_reference_system self = dict_get (properties self) DIM_REF_SYS_PROP"

definition HorizontalSpatialDimension_reference_system_setter :: "'n json \<Rightarrow> 'n Dimension \<Rightarrow> 'n Dimension" where
  "HorizontalSpatialDimension_reference_system_setter v self =
     (if v = JNull then self\<lparr>properties := (properties self)(DIM_REF_SYS_PROP := None)\<rparr>
      else self\<lparr>properties := (properties self)(DIM_REF_SYS_PROP \<mapsto> v)\<rparr>)"

paragraph \<open>class VerticalSpatialDimension\<close>

definition VerticalSpatialDimension_axis :: "'n Dimension \<Rightarrow> error + 'n json" where
  "VerticalSpatialDimension_axis self =
     get_required (dict_get (properties self) DIM_AXIS_PROP) ''cube:dimension'' DIM_AXIS_PROP"

definition VerticalSpatialDimension_axis_setter :: "'n json \<Rightarrow> 'n Dimension \<Rightarrow> 'n Dimension" where
  "VerticalSpatialDimension_axis_setter v self = self\<lparr>properties := (properties self)(DIM_TYPE_PROP \<mapsto> v)\<rparr>"

definition VerticalSpatialDimension_extent :: "'n Dimension \<Rightarrow> 'n json" where
  "VerticalSpatialDimension_extent self = dict_get (properties self) DIM_EXTENT_PROP"

definition VerticalSpatialDimension_extent_setter :: "'n json \<Rightarrow> 'n Dimension \<Rightarrow> 'n Dimension" where
  "VerticalSpatialDimension_extent_setter v self =
     (if v = JNull then self\<lparr>properties := (properties self)(DIM_EXTENT_PROP := None)\<rparr>
      else self\<lparr>properties := (properties self)(DIM_EXTENT_PROP \<mapsto> v)\<rparr>)"

definition VerticalSpatialDimension_values :: "'n Dimension \<Rightarrow> 'n json" where
  "VerticalSpatialDimension_values self = dict_get (properties self) DIM_VALUES_PROP"

definition VerticalSpatialDimension_values_setter :: "'n json \<Rightarrow> 'n Dimension \<Rightarrow> 'n Dimension" where
  "VerticalSpatialDimension_values_setter v self =
     (if v = JNull then self\<lparr>properties := (properties self)(DIM_VALUES_PROP := None)\<rparr>
      else self\<lparr>properties := (properties self)(DIM_VALUES_PROP \<mapsto> v)\<rparr>)"

definition VerticalSpatialDimension_step :: "'n Dimension \<Rightarrow> 'n json" where
  "VerticalSpatialDimension_step self = dict_get (properties self) DIM_STEP_PROP"

definition VerticalSpatialDimension_step_setter :: "'n json \<Rightarrow> 'n Dimension \<Rightarrow> 'n Dimension" where
  "VerticalSpatialDimension_step_setter v self = self\<lparr>properties := (properties self)(DIM_STEP_PROP \<mapsto> v)\<rparr>"

definition VerticalSpatialDimension_clear_step :: "'n Dimension \<Rightarrow> 'n Dimension" where
  "VerticalSpatialDimension_clear_step self = self\<lparr>properties := (properties self)(DIM_STEP_PROP := None)\<rparr>"

definition VerticalSpatialDimension_unit :: "'n Dimension \<Rightarrow> 'n json" where
  "VerticalSpatialDimension_unit self = dict_get (properties self) DIM_UNIT_PROP"

definition VerticalSpatialDimension_unit_setter :: "'n json \<Rightarrow> 'n Dimension \<Rightarrow> 'n Dimension" where
  "VerticalSpatialDimension_unit_setter v self =
     (if v = JNull then self\<lparr>properties := (properties self)(DIM_UNIT_PROP := None)\<rparr>
      else self\<lparr>properties := (properties self)(DIM_UNIT_PROP \<mapsto> v)\<rparr>)"

definition VerticalSpatialDimension_reference_system :: "'n Dimension \<Rightarrow> 'n json" where
  "VerticalSpatialDimension_reference_system self = dict_get (properties self) DIM_REF_SYS_PROP"

definition VerticalSpatialDimension_reference_system_setter :: "'n json \<Rightarrow> 'n Dimension \<Rightarrow> 'n Dimension" where
  "VerticalSpatialDimension_reference_system_setter v self =
     (if v = JNull then self\<lparr>properties := (properties self)(DIM_REF_SYS_PROP := None)\<rparr>
      else self\<lparr>properties := (properties self)(DIM_REF_SYS_PROP \<mapsto> v)\<rparr>)"

paragraph \<open>class TemporalDimension\<close>

definition TemporalDimension_extent :: "'n Dimension \<Rightarrow> 'n json" where
  "TemporalDimension_extent self = dict_get (properties self) DIM_EXTENT_PROP"

definition TemporalDimension_extent_setter :: "'n json \<Rightarrow> 'n Dimension \<Rightarrow> 'n Dimension" where
  "TemporalDimension_extent_setter v self =
     (if v = JNull then self\<lparr>properties := (properties self)(DIM_EXTENT_PROP := None)\<rparr>
      else self\<lparr>properties := (properties self)(DIM_EXTENT_PROP \<mapsto> v)\<rparr>)"

definition TemporalDimension_values :: "'n Dimension \<Rightarrow> 'n json" where
  "TemporalDimension_values self = dict_get (properties self) DIM_VALUES_PROP"

definition TemporalDimension_values_setter :: "'n json \<Rightarrow> 'n Dimension \<Rightarrow> 'n Dimension" where
  "TemporalDimension_values_setter v self =
     (if v = JNull then self\<lparr>properties := (properties self)(DIM_VALUES_PROP := None)\<rparr>
      else self\<lparr>properties := (properties self)(DIM_VALUES_PROP \<mapsto> v)\<rparr>)"

definition TemporalDimension_step :: "'n Dimension \<Rightarrow> 'n json" where
  "TemporalDimension_step self = dict_get (properties self) DIM_STEP_PROP"

definition TemporalDimension_step_setter :: "'n json \<Rightarrow> 'n Dimension \<Rightarrow> 'n Dimension" where
  "TemporalDimension_step_setter v self = self\<lparr>properties := (properties self)(DIM_STEP_PROP \<mapsto> v)\<rparr>"

definition TemporalDimension_clear_step :: "'n Dimension \<Rightarrow> 'n Dimension" where
  "TemporalDimension_clear_step self = self\<lparr>properties := (properties self)(DIM_STEP_PROP := None)\<rparr>"

paragraph \<open>class AdditionalDimension\<close>

definition AdditionalDimension_extent :: "'n Dimension \<Rightarrow> 'n json" where
  "AdditionalDimension_extent self = dict_get (properties self) DIM_EXTENT_PROP"

definition AdditionalDimension_extent_setter :: "'n json \<Rightarrow> 'n Dimension \<Rightarrow> 'n Dimension" where
  "AdditionalDimension_extent_setter v self =
     (if v = JNull then self\<lparr>properties := (properties self)(DIM_EXTENT_PROP := None)\<rparr>
      else self\<lparr>properties := (properties self)(DIM_EXTENT_PROP \<mapsto> v)\<rparr>)"

definition AdditionalDimension_values :: "'n Dimension \<Rightarrow> 'n json" where
  "AdditionalDimension_values self = dict_get (properties self) DIM_VALUES_PROP"

definition AdditionalDimension_values_setter :: "'n json \<Rightarrow> 'n Dimension \<Rightarrow> 'n Dimension" where
  "AdditionalDimension_values_setter v self =
     (if v = JNull then self\<lparr>properties := (properties self)(DIM_VALUES_PROP := None)\<rparr>
      else self\<lparr>properties := (properties self)(DIM_VALUES_PROP \<mapsto> v)\<rparr>)"

definition AdditionalDimension_step :: "'n Dimension \<Rightarrow> 'n json" where
  "AdditionalDimension_step self = dict_get (properties self) DIM_STEP_PROP"

definition AdditionalDimension_step_setter :: "'n json \<Rightarrow> 'n Dimension \<Rightarrow> 'n Dimension" where
  "AdditionalDimension_step_setter v self = self\<lparr>properties := (properties self)(DIM_STEP_PROP \<mapsto> v)\<rparr>"

definition AdditionalDimension_clear_step :: "'n Dimension \<Rightarrow> 'n Dimension" where
  "AdditionalDimension_clear_step self = self\<lparr>properties := (properties self)(DIM_STEP_PROP := None)\<rparr>"

definition AdditionalDimension_unit :: "'n Dimension \<Rightarrow> 'n json" where
  "AdditionalDimension_unit self = dict_get (properties self) DIM_UNIT_PROP"

definition AdditionalDimension_unit_setter :: "'n json \<Rightarrow> 'n Dimension \<Rightarrow> 'n Dimension" where
  "AdditionalDimension_unit_setter v self =
     (if v = JNull then self\<lparr>properties := (properties self)(DIM_UNIT_PROP := None)\<rparr>
      else self\<lparr>properties := (properties self)(DIM_UNIT_PROP \<mapsto> v)\<rparr>)"

definition AdditionalDimension_reference_system :: "'n Dimension \<Rightarrow> 'n json" where
  "AdditionalDimension_reference_system self = dict_get (properties self) DIM_REF_SYS_PROP"

definition AdditionalDimension_reference_system_setter :: "'n json \<Rightarrow> 'n Dimension \<Rightarrow> 'n Dimension" where
  "AdditionalDimension_reference_system_setter v self =
     (if v = JNull then self\<lparr>properties := (properties self)(DIM_REF_SYS_PROP := None)\<rparr>
      else self\<lparr>properties := (properties self)(DIM_REF_SYS_PROP \<mapsto> v)\<rparr>)"

subsection \<open>Variable views\<close>

text \<open>
  A variable view is an object of the class \<^verbatim>\<open>Variable\<close>; its only attribute is
  \<^verbatim>\<open>properties\<close>, the field \<open>var_properties\<close> here (a record field of a second
  record cannot share the name of the first one's).
\<close>

record 'n Variable =
  var_properties :: "'n props"

definition Variable_var_type :: "'n Variable \<Rightarrow> error + 'n json" where
  "Variable_var_type self =
     get_required (dict_get (var_properties self) VAR_TYPE_PROP) ''cube:variables'' VAR_TYPE_PROP"

definition Variable_var_type_setter :: "'n json \<Rightarrow> 'n Variable \<Rightarrow> 'n Variable" where
  "Variable_var_type_setter v self = self\<lparr>var_properties := (var_properties self)(VAR_TYPE_PROP \<mapsto> v)\<rparr>"

definition Variable_description :: "'n Variable \<Rightarrow> 'n json" where
  "Variable_description self = dict_get (var_properties self) VAR_DESC_PROP"

definition Variable_description_setter :: "'n json \<Rightarrow> 'n Variable \<Rightarrow> 'n Variable" where
  "Variable_description_setter v self =
     (if v = JNull then self\<lparr>var_properties := (var_properties self)(VAR_DESC_PROP := None)\<rparr>
      else self\<lparr>var_properties := (var_properties self)(VAR_DESC_PROP \<mapsto> v)\<rparr>)"

definition Variable_to_dict :: "'n Variable \<Rightarrow> 'n props" where
  "Variable_to_dict self = var_properties self"

text \<open>
  The getter of \<^verbatim>\<open>dimensions\<close> is
  \<^verbatim>\<open>get_required(self.properties.get(VAR_DIMS_PROP, "cube:dimensions", VAR_DIMS_PROP))\<close>:
  the closing parenthesis of \<^verbatim>\<open>get\<close> stands after the arguments meant for
  \<^verbatim>\<open>get_required\<close>. Python evaluates the inner call first, with the key and two more
  arguments. Were it to return, the outer call would have one argument of the three
  that \<^verbatim>\<open>get_required\<close> requires, a \<^verbatim>\<open>TypeError\<close> as well.
\<close>

definition Variable_dimensions :: "'n Variable \<Rightarrow> error + 'n json" where
  "Variable_dimensions self =
     (case dict_get_call (var_properties self) VAR_DIMS_PROP
             [JStr ''cube:dimensions'', JStr VAR_DIMS_PROP] of
        Inl e \<Rightarrow> Inl e
      | Inr option \<Rightarrow> Inl TypeError)"

definition Variable_dimensions_setter :: "'n json \<Rightarrow> 'n Variable \<Rightarrow> 'n Variable" where
  "Variable_dimensions_setter v self = self\<lparr>var_properties := (var_properties self)(VAR_DIMS_PROP \<mapsto> v)\<rparr>"

text \<open>The getter of \<^verbatim>\<open>values\<close> reads the key \<^verbatim>\<open>DIM_UNIT_PROP\<close>; it has no setter.\<close>

definition Variable_values :: "'n Variable \<Rightarrow> 'n json" where
  "Variable_values self = dict_get (var_properties self) DIM_UNIT_PROP"

definition Variable_extent :: "'n Variable \<Rightarrow> 'n json" where
  "Variable_extent self = dict_get (var_properties self) VAR_EXTENT_PROP"

definition Variable_extent_setter :: "'n json \<Rightarrow> 'n Variable \<Rightarrow> 'n Variable" where
  "Variable_extent_setter v self =
     (if v = JNull then self\<lparr>var_properties := (var_properties self)(VAR_EXTENT_PROP := None)\<rparr>
      else self\<lparr>var_properties := (var_properties self)(VAR_EXTENT_PROP \<mapsto> v)\<rparr>)"

definition Variable_step :: "'n Variable \<Rightarrow> 'n json" where
  "Variable_step self = dict_get (var_properties self) VAR_STEP_PROP"

definition Variable_step_setter :: "'n json \<Rightarrow> 'n Variable \<Rightarrow> 'n Variable" where
  "Variable_step_setter v self = self\<lparr>var_properties := (var_properties self)(VAR_STEP_PROP \<mapsto> v)\<rparr>"

definition Variable_unit :: "'n Variable \<Rightarrow> 'n json" where
  "Variable_unit self = dict_get (var_properties self) VAR_UNIT_PROP"

definition Variable_unit_setter :: "'n json \<Rightarrow> 'n Variable \<Rightarrow> 'n Variable" where
  "Variable_unit_setter v self =
     (if v = JNull then self\<lparr>var_properties := (var_properties self)(VAR_UNIT_PROP := None)\<rparr>
      else self\<lparr>var_properties := (var_properties self)(VAR_UNIT_PROP \<mapsto> v)\<rparr>)"

definition Variable_shape :: "'n Variable \<Rightarrow> 'n json" where
  "Variable_shape self = dict_get (var_properties self) VAR_SHAPE_PROP"

definition Variable_shape_setter :: "'n json \<Rightarrow> 'n Variable \<Rightarrow> 'n Variable" where
  "Variable_shape_setter v self =
     (if v = JNull then self\<lparr>var_properties := (var_properties self)(VAR_SHAPE_PROP := None)\<rparr>
      else self\<lparr>var_properties := (var_properties self)(VAR_SHAPE_PROP \<mapsto> v)\<rparr>)"

definition Variable_chunks :: "'n Variable \<Rightarrow> 'n json" where
  "Variable_chunks self = dict_get (var_properties self) VAR_CHUNKS_PROP"

definition Variable_chunks_setter :: "'n json \<Rightarrow> 'n Variable \<Rightarrow> 'n Variable" where
  "Variable_chunks_setter v self =
     (if v = JNull then self\<lparr>var_properties := (var_properties self)(VAR_CHUNKS_PROP := None)\<rparr>
      else self\<lparr>var_properties := (var_properties self)(VAR_CHUNKS_PROP \<mapsto> v)\<rparr>)"

definition Variable_attrs :: "'n Variable \<Rightarrow> 'n json" where
  "Variable_attrs self = dict_get (var_properties self) VAR_ATTRS_PROP"

definition Variable_attrs_setter :: "'n json \<Rightarrow> 'n Variable \<Rightarrow> 'n Variable" where
  "Variable_attrs_setter v self =
     (if v = JNull then self\<lparr>var_properties := (var_properties self)(VAR_ATTRS_PROP := None)\<rparr>
      else self\<lparr>var_properties := (var_properties self)(VAR_ATTRS_PROP \<mapsto> v)\<rparr>)"

definition Variable_from_dict :: "'n props \<Rightarrow> 'n Variable" where
  "Variable_from_dict d = \<lparr>var_properties = d\<rparr>"

subsection \<open>Host objects and the extension facade\<close>

text \<open>
  A facade keeps a reference to a dictionary of its host object, not a copy. A
  dictionary object is named by its address: two attributes hold the same dictionary
  when their addresses are equal. The factory and the constructors allocate no
  dictionary and read none, so no heap appears in their model.
\<close>

type_synonym ref = nat

text \<open>
  Modelled from the spec: the classes \<^verbatim>\<open>pystac.Collection\<close>, \<^verbatim>\<open>pystac.Item\<close> and
  \<^verbatim>\<open>pystac.Asset\<close> are imported by the module and their declarations are not part
  of it. The specification describes the host objects as supplying a
  \<^verbatim>\<open>properties\<close> or \<^verbatim>\<open>extra_fields\<close> mapping, an \<^verbatim>\<open>id\<close> and, for an asset, an
  \<^verbatim>\<open>owner\<close> back-reference; the module reads these attributes and an asset's
  \<^verbatim>\<open>href\<close>. An owner is an item or a collection, or there is none. A host object
  of any other class is \<open>OtherObj\<close> with the text of \<^verbatim>\<open>type(obj)\<close>.
\<close>

record Collection =
  collection_id :: string
  extra_fields :: ref

record Item =
  item_id :: string
  item_properties :: ref

datatype owner_obj = OwnerItem Item | OwnerCollection Collection

record Asset =
  href :: string
  asset_properties :: ref
  owner :: "owner_obj option"

datatype host_obj =
    CollectionObj Collection
  | ItemObj Item
  | AssetObj Asset
  | OtherObj string

text \<open>
  The three facade classes with the attributes their constructors assign. The
  constructor of the asset facade assigns \<^verbatim>\<open>additional_read_properties\<close> only in its
  conditional: \<open>None\<close> is the attribute left unassigned.
\<close>

datatype DatacubeExtension =
    CollectionDatacubeExtension Collection ref
  | ItemDatacubeExtension Item ref
  | AssetDatacubeExtension string ref "ref list option"

fun facade_properties :: "DatacubeExtension \<Rightarrow> ref" where
  "facade_properties (CollectionDatacubeExtension collection p) = p"
| "facade_properties (ItemDatacubeExtension item p) = p"
| "facade_properties (AssetDatacubeExtension asset_href p extra) = p"

fun additional_read_properties :: "DatacubeExtension \<Rightarrow> ref list option" where
  "additional_read_properties (CollectionDatacubeExtension collection p) = None"
| "additional_read_properties (ItemDatacubeExtension item p) = None"
| "additional_read_properties (AssetDatacubeExtension asset_href p extra) = extra"

definition CollectionDatacubeExtension_init :: "Collection \<Rightarrow> DatacubeExtension" where
  "CollectionDatacubeExtension_init collection =
     CollectionDatacubeExtension collection (extra_fields collection)"

definition ItemDatacubeExtension_init :: "Item \<Rightarrow> DatacubeExtension" where
  "ItemDatacubeExtension_init item = ItemDatacubeExtension item (item_properties item)"

text \<open>
  \<^verbatim>\<open>if asset.owner and isinstance(asset.owner, pystac.Item)\<close>: an owner object is
  truthy, \<^verbatim>\<open>None\<close> is not.
\<close>

definition AssetDatacubeExtension_init :: "Asset \<Rightarrow> DatacubeExtension" where
  "AssetDatacubeExtension_init asset =
     AssetDatacubeExtension (href asset) (asset_properties asset)
       (case owner asset of
          Some (OwnerItem item) \<Rightarrow> Some [item_properties item]
        | Some (OwnerCollection collection) \<Rightarrow> None
        | None \<Rightarrow> None)"

definition DatacubeExtension_ext :: "host_obj \<Rightarrow> error + DatacubeExtension" where
  "DatacubeExtension_ext obj =
     (case obj of
        CollectionObj collection \<Rightarrow> Inr (CollectionDatacubeExtension_init collection)
      | ItemObj item \<Rightarrow> Inr (ItemDatacubeExtension_init item)
      | AssetObj asset \<Rightarrow> Inr (AssetDatacubeExtension_init asset)
      | OtherObj type_obj \<Rightarrow>
          Inl (ExtensionTypeError (''Datacube extension does not apply to type '' @ type_obj)))"

section \<open>The dimension classifier\<close>

lemma dict_get_absent_or_null:
  "dict_get (d(key := None)) key = JNull \<and> dict_get (d(key \<mapsto> JNull)) key = JNull"
  by (simp add: dict_get_def)




text \<open>
  Claim C2, as the code has it. \<^verbatim>\<open>Dimension.from_dict\<close> fails with a
  missing-required-property error whose field is \<^verbatim>\<open>type\<close> on every mapping in which
  \<^verbatim>\<open>type\<close> is absent or null, and with one whose field is \<^verbatim>\<open>axis\<close> on every
  mapping with type \<^verbatim>\<open>"spatial"\<close> in which \<^verbatim>\<open>axis\<close> is absent or null; it fails
  on no other mapping. The statement leaves the context label of the error open.
\<close>

theorem from_dict_failure_modes:
  fixes d :: "'n props"
  shows
    "(d DIM_TYPE_PROP = None \<or> d DIM_TYPE_PROP = Some JNull \<longrightarrow>
        (\<exists>ctx. Dimension_from_dict d = Inl (RequiredPropertyMissing ctx DIM_TYPE_PROP))) \<and>
     (d DIM_TYPE_PROP = Some (JStr ''spatial'') \<and>
      (d DIM_AXIS_PROP = None \<or> d DIM_AXIS_PROP = Some JNull) \<longrightarrow>
        (\<exists>ctx. Dimension_from_dict d = Inl (RequiredPropertyMissing ctx DIM_AXIS_PROP))) \<and>
     ((\<exists>e. Dimension_from_dict d = Inl e) \<longrightarrow>
        d DIM_TYPE_PROP = None \<or> d DIM_TYPE_PROP = Some JNull \<or>
        (d DIM_TYPE_PROP = Some (JStr ''spatial'') \<and>
         (d DIM_AXIS_PROP = None \<or> d DIM_AXIS_PROP = Some JNull)))"
proof (intro conjI impI)
  assume "d DIM_TYPE_PROP = None \<or> d DIM_TYPE_PROP = Some JNull"
  then have "dict_get d DIM_TYPE_PROP = JNull"
    by (auto simp add: dict_get_def)
  then show "\<exists>ctx. Dimension_from_dict d = Inl (RequiredPropertyMissing ctx DIM_TYPE_PROP)"
    by (simp add: Dimension_from_dict_def)
next
  assume "d DIM_TYPE_PROP = Some (JStr ''spatial'') \<and>
          (d DIM_AXIS_PROP = None \<or> d DIM_AXIS_PROP = Some JNull)"
  then have "dict_get d DIM_TYPE_PROP = JStr ''spatial''" and "dict_get d DIM_AXIS_PROP = JNull"
    by (auto simp add: dict_get_def)
  then show "\<exists>ctx. Dimension_from_dict d = Inl (RequiredPropertyMissing ctx DIM_AXIS_PROP)"
    by (simp add: Dimension_from_dict_def)
next
  assume "\<exists>e. Dimension_from_dict d = Inl e"
  then show "d DIM_TYPE_PROP = None \<or> d DIM_TYPE_PROP = Some JNull \<or>
        (d DIM_TYPE_PROP = Some (JStr ''spatial'') \<and>
         (d DIM_AXIS_PROP = None \<or> d DIM_AXIS_PROP = Some JNull))"
    by (auto simp add: Dimension_from_dict_def dict_get_def Let_def
             split: option.splits if_splits)
qed

theorem from_dict_failure_modes_witness:
  "(\<exists>ctx. Dimension_from_dict (Map.empty :: int props)
            = Inl (RequiredPropertyMissing ctx DIM_TYPE_PROP)) \<and>
   (\<exists>ctx. Dimension_from_dict [DIM_TYPE_PROP \<mapsto> (JNull :: int json)]
            = Inl (RequiredPropertyMissing ctx DIM_TYPE_PROP)) \<and>
   (\<exists>ctx. Dimension_from_dict [DIM_TYPE_PROP \<mapsto> (JStr ''spatial'' :: int json)]
            = Inl (RequiredPropertyMissing ctx DIM_AXIS_PROP)) \<and>
   (\<exists>ctx. Dimension_from_dict [DIM_TYPE_PROP \<mapsto> JStr ''spatial'', DIM_AXIS_PROP \<mapsto> (JNull :: int json)]
            = Inl (RequiredPropertyMissing ctx DIM_AXIS_PROP))"
  using
    from_dict_failure_modes [of "Map.empty :: int props"]
    from_dict_failure_modes [of "[DIM_TYPE_PROP \<mapsto> (JNull :: int json)]"]
    from_dict_failure_modes [of "[DIM_TYPE_PROP \<mapsto> (JStr ''spatial'' :: int json)]"]
    from_dict_failure_modes [of "[DIM_TYPE_PROP \<mapsto> JStr ''spatial'', DIM_AXIS_PROP \<mapsto> (JNull :: int json)]"]
  by simp

text \<open>
  On the empty mapping the error names the context \<^verbatim>\<open>cube_dimension\<close>, where the
  getters of \<^verbatim>\<open>dim_type\<close> and \<^verbatim>\<open>axis\<close> name \<^verbatim>\<open>cube:dimension\<close>; and the
  classifier fails on \<^verbatim>\<open>{"type": None}\<close>, a mapping in which the key \<^verbatim>\<open>type\<close> is
  not absent.
\<close>

theorem from_dict_failure_counterexample:
  "Dimension_from_dict (Map.empty :: int props)
     = Inl (RequiredPropertyMissing ''cube_dimension'' DIM_TYPE_PROP) \<and>
   Dimension_from_dict (Map.empty :: int props)
     \<noteq> Inl (RequiredPropertyMissing ''cube:dimension'' DIM_TYPE_PROP) \<and>
   DIM_TYPE_PROP \<in> dom [DIM_TYPE_PROP \<mapsto> (JNull :: int json)] \<and>
   (\<exists>e. Dimension_from_dict [DIM_TYPE_PROP \<mapsto> (JNull :: int json)] = Inl e)"
  by (simp add: Dimension_from_dict_def dict_get_def)

section \<open>The accessors of the dimension views\<close>

lemma step_null_not_cleared:
  fixes d :: "'n props"
  shows "d(DIM_STEP_PROP \<mapsto> JNull) \<noteq> d(DIM_STEP_PROP := None)"
proof
  assume "d(DIM_STEP_PROP \<mapsto> JNull) = d(DIM_STEP_PROP := None)"
  then have "(d(DIM_STEP_PROP \<mapsto> JNull)) DIM_STEP_PROP = (d(DIM_STEP_PROP := None)) DIM_STEP_PROP"
    by (rule arg_cong)
  then show False by simp
qed

text \<open>
  Claim C3. In each of the four dimension classes the field \<^verbatim>\<open>step\<close> has three
  states, told apart by the mapping. While the key \<^verbatim>\<open>step\<close> is absent, reading
  \<^verbatim>\<open>step\<close> returns \<^verbatim>\<open>None\<close>. After the assignment of \<^verbatim>\<open>None\<close> the key is
  present with the value null and the read returns that null; after the assignment of
  any value the key holds it and the read returns it. After \<^verbatim>\<open>clear_step\<close>, on any
  view, the key is gone, every other key is as it was, and the read returns
  \<^verbatim>\<open>None\<close> again. The mapping with the null stored differs
  from the mapping with the key removed; the value the getter returns is
  \<^verbatim>\<open>None\<close> in both.
\<close>

theorem step_three_states:
  fixes self :: "'n Dimension"
  shows
    "(DIM_STEP_PROP \<notin> dom (properties self) \<longrightarrow> HorizontalSpatialDimension_step self = JNull) \<and>
     properties (HorizontalSpatialDimension_step_setter v self) = (properties self)(DIM_STEP_PROP \<mapsto> v) \<and>
     properties (HorizontalSpatialDimension_step_setter JNull self) DIM_STEP_PROP = Some JNull \<and>
     HorizontalSpatialDimension_step (HorizontalSpatialDimension_step_setter JNull self) = JNull \<and>
     properties (HorizontalSpatialDimension_step_setter v self) DIM_STEP_PROP = Some v \<and>
     HorizontalSpatialDimension_step (HorizontalSpatialDimension_step_setter v self) = v \<and>
     properties (HorizontalSpatialDimension_clear_step self) = (properties self)(DIM_STEP_PROP := None) \<and>
     DIM_STEP_PROP \<notin> dom (properties (HorizontalSpatialDimension_clear_step self)) \<and>
     HorizontalSpatialDimension_step (HorizontalSpatialDimension_clear_step self) = JNull \<and>
     DIM_STEP_PROP \<notin> dom (properties (HorizontalSpatialDimension_clear_step (HorizontalSpatialDimension_step_setter JNull self))) \<and>
     HorizontalSpatialDimension_step (HorizontalSpatialDimension_clear_step (HorizontalSpatialDimension_step_setter JNull self)) = JNull \<and>
     properties (HorizontalSpatialDimension_step_setter JNull self) \<noteq> properties (HorizontalSpatialDimension_clear_step self) \<and>
     (DIM_STEP_PROP \<notin> dom (properties self) \<longrightarrow> VerticalSpatialDimension_step self = JNull) \<and>
     properties (VerticalSpatialDimension_step_setter v self) = (properties self)(DIM_STEP_PROP \<mapsto> v) \<and>
     properties (VerticalSpatialDimension_step_setter JNull self) DIM_STEP_PROP = Some JNull \<and>
     VerticalSpatialDimension_step (VerticalSpatialDimension_step_setter JNull self) = JNull \<and>
     properties (VerticalSpatialDimension_step_setter v self) DIM_STEP_PROP = Some v \<and>
     VerticalSpatialDimension_step (VerticalSpatialDimension_step_setter v self) = v \<and>
     properties (VerticalSpatialDimension_clear_step self) = (properties self)(DIM_STEP_PROP := None) \<and>
     DIM_STEP_PROP \<notin> dom (properties (VerticalSpatialDimension_clear_step self)) \<and>
     VerticalSpatialDimension_step (VerticalSpatialDimension_clear_step self) = JNull \<and>
     DIM_STEP_PROP \<notin> dom (properties (VerticalSpatialDimension_clear_step (VerticalSpatialDimension_step_setter JNull self))) \<and>
     VerticalSpatialDimension_step (VerticalSpatialDimension_clear_step (VerticalSpatialDimension_step_setter JNull self)) = JNull \<and>
     properties (VerticalSpatialDimension_step_setter JNull self) \<noteq> properties (VerticalSpatialDimension_clear_step self) \<and>
     (DIM_STEP_PROP \<notin> dom (properties self) \<longrightarrow> TemporalDimension_step self = JNull) \<and>
     properties (TemporalDimension_step_setter v self) = (properties self)(DIM_STEP_PROP \<mapsto> v) \<and>
     properties (TemporalDimension_step_setter JNull self) DIM_STEP_PROP = Some JNull \<and>
     TemporalDimension_step (TemporalDimension_step_setter JNull self) = JNull \<and>
     properties (TemporalDimension_step_setter v self) DIM_STEP_PROP = Some v \<and>
     TemporalDimension_step (TemporalDimension_step_setter v self) = v \<and>
     properties (TemporalDimension_clear_step self) = (properties self)(DIM_STEP_PROP := None) \<and>
     DIM_STEP_PROP \<notin> dom (properties (TemporalDimension_clear_step self)) \<and>
     TemporalDimension_step (TemporalDimension_clear_step self) = JNull \<and>
     DIM_STEP_PROP \<notin> dom (properties (TemporalDimension_clear_step (TemporalDimension_step_setter JNull self))) \<and>
     TemporalDimension_step (TemporalDimension_clear_step (TemporalDimension_step_setter JNull self)) = JNull \<and>
     properties (TemporalDimension_step_setter JNull self) \<noteq> properties (TemporalDimension_clear_step self) \<and>
     (DIM_STEP_PROP \<notin> dom (properties self) \<longrightarrow> AdditionalDimension_step self = JNull) \<and>
     properties (AdditionalDimension_step_setter v self) = (properties self)(DIM_STEP_PROP \<mapsto> v) \<and>
     properties (AdditionalDimension_step_setter JNull self) DIM_STEP_PROP = Some JNull \<and>
     AdditionalDimension_step (AdditionalDimension_step_setter JNull self) = JNull \<and>
     properties (AdditionalDimension_step_setter v self) DIM_STEP_PROP = Some v \<and>
     AdditionalDimension_step (AdditionalDimension_step_setter v self) = v \<and>
     properties (AdditionalDimension_clear_step self) = (properties self)(DIM_STEP_PROP := None) \<and>
     DIM_STEP_PROP \<notin> dom (properties (AdditionalDimension_clear_step self)) \<and>
     AdditionalDimension_step (AdditionalDimension_clear_step self) = JNull \<and>
     DIM_STEP_PROP \<notin> dom (properties (AdditionalDimension_clear_step (AdditionalDimension_step_setter JNull self))) \<and>
     AdditionalDimension_step (AdditionalDimension_clear_step (AdditionalDimension_step_setter JNull self)) = JNull \<and>
     properties (AdditionalDimension_step_setter JNull self) \<noteq> properties (AdditionalDimension_clear_step self)"
  by (simp add: dict_get_def step_null_not_cleared domIff
        HorizontalSpatialDimension_step_def HorizontalSpatialDimension_step_setter_def
        HorizontalSpatialDimension_clear_step_def VerticalSpatialDimension_step_def
        VerticalSpatialDimension_step_setter_def
        VerticalSpatialDimension_clear_step_def TemporalDimension_step_def
        TemporalDimension_step_setter_def TemporalDimension_clear_step_def
        AdditionalDimension_step_def AdditionalDimension_step_setter_def
        AdditionalDimension_clear_step_def)

text \<open>
  The vertical dimension of the specification's scenario, with \<^verbatim>\<open>step\<close> 100: the read
  without the key, the assignment of \<^verbatim>\<open>None\<close> and of 50, and \<^verbatim>\<open>clear_step\<close>, which
  removes the key and keeps the other three. Then \<^verbatim>\<open>clear_step\<close> on a stored step
  and the read without the key in the other three classes.
\<close>

theorem step_three_states_witness:
  "VerticalSpatialDimension_step
      \<lparr>cls = VerticalSpatialDimension, properties =
        [DIM_TYPE_PROP \<mapsto> JStr ''spatial'', DIM_AXIS_PROP \<mapsto> JStr ''z'',
         DIM_EXTENT_PROP \<mapsto> JList [JNum 0, JNum (100::int)]]\<rparr> = JNull \<and>
     properties (VerticalSpatialDimension_step_setter JNull
      \<lparr>cls = VerticalSpatialDimension, properties =
        [DIM_TYPE_PROP \<mapsto> JStr ''spatial'', DIM_AXIS_PROP \<mapsto> JStr ''z'',
         DIM_EXTENT_PROP \<mapsto> JList [JNum 0, JNum 100], DIM_STEP_PROP \<mapsto> JNum (100::int)]\<rparr>) DIM_STEP_PROP = Some JNull \<and>
     VerticalSpatialDimension_step (VerticalSpatialDimension_step_setter JNull
      \<lparr>cls = VerticalSpatialDimension, properties =
        [DIM_TYPE_PROP \<mapsto> JStr ''spatial'', DIM_AXIS_PROP \<mapsto> JStr ''z'',
         DIM_EXTENT_PROP \<mapsto> JList [JNum 0, JNum 100], DIM_STEP_PROP \<mapsto> JNum (100::int)]\<rparr>) = JNull \<and>
     VerticalSpatialDimension_step (VerticalSpatialDimension_step_setter (JNum 50)
      \<lparr>cls = VerticalSpatialDimension, properties =
        [DIM_TYPE_PROP \<mapsto> JStr ''spatial'', DIM_AXIS_PROP \<mapsto> JStr ''z'',
         DIM_EXTENT_PROP \<mapsto> JList [JNum 0, JNum 100], DIM_STEP_PROP \<mapsto> JNum (100::int)]\<rparr>) = JNum 50 \<and>
     properties (VerticalSpatialDimension_clear_step
      \<lparr>cls = VerticalSpatialDimension, properties =
        [DIM_TYPE_PROP \<mapsto> JStr ''spatial'', DIM_AXIS_PROP \<mapsto> JStr ''z'',
         DIM_EXTENT_PROP \<mapsto> JList [JNum 0, JNum 100], DIM_STEP_PROP \<mapsto> JNum (100::int)]\<rparr>)
     = [DIM_TYPE_PROP \<mapsto> JStr ''spatial'', DIM_AXIS_PROP \<mapsto> JStr ''z'',
         DIM_EXTENT_PROP \<mapsto> JList [JNum 0, JNum (100::int)]] \<and>
     DIM_STEP_PROP \<notin> dom (properties (VerticalSpatialDimension_clear_step
      \<lparr>cls = VerticalSpatialDimension, properties =
        [DIM_TYPE_PROP \<mapsto> JStr ''spatial'', DIM_AXIS_PROP \<mapsto> JStr ''z'',
         DIM_EXTENT_PROP \<mapsto> JList [JNum 0, JNum 100], DIM_STEP_PROP \<mapsto> JNum (100::int)]\<rparr>)) \<and>
     VerticalSpatialDimension_step (VerticalSpatialDimension_clear_step
      \<lparr>cls = VerticalSpatialDimension, properties =
        [DIM_TYPE_PROP \<mapsto> JStr ''spatial'', DIM_AXIS_PROP \<mapsto> JStr ''z'',
         DIM_EXTENT_PROP \<mapsto> JList [JNum 0, JNum 100], DIM_STEP_PROP \<mapsto> JNum (100::int)]\<rparr>) = JNull \<and>
     properties (HorizontalSpatialDimension_clear_step \<lparr>cls = HorizontalSpatialDimension, properties = [DIM_STEP_PROP \<mapsto> JNum (100::int)]\<rparr>) DIM_STEP_PROP = None \<and>
     HorizontalSpatialDimension_step \<lparr>cls = HorizontalSpatialDimension, properties = (Map.empty :: int props)\<rparr> = JNull \<and>
     properties (TemporalDimension_clear_step \<lparr>cls = TemporalDimension, properties = [DIM_STEP_PROP \<mapsto> JNum (100::int)]\<rparr>) DIM_STEP_PROP = None \<and>
     TemporalDimension_step \<lparr>cls = TemporalDimension, properties = (Map.empty :: int props)\<rparr> = JNull \<and>
     properties (AdditionalDimension_clear_step \<lparr>cls = AdditionalDimension, properties = [DIM_STEP_PROP \<mapsto> JNum (100::int)]\<rparr>) DIM_STEP_PROP = None \<and>
     AdditionalDimension_step \<lparr>cls = AdditionalDimension, properties = (Map.empty :: int props)\<rparr> = JNull"
  using
    step_three_states [of
      "\<lparr>cls = VerticalSpatialDimension, properties =
        [DIM_TYPE_PROP \<mapsto> JStr ''spatial'', DIM_AXIS_PROP \<mapsto> JStr ''z'',
         DIM_EXTENT_PROP \<mapsto> JList [JNum 0, JNum (100::int)]]\<rparr>"]
    step_three_states [of
      "\<lparr>cls = VerticalSpatialDimension, properties =
        [DIM_TYPE_PROP \<mapsto> JStr ''spatial'', DIM_AXIS_PROP \<mapsto> JStr ''z'',
         DIM_EXTENT_PROP \<mapsto> JList [JNum 0, JNum 100], DIM_STEP_PROP \<mapsto> JNum (100::int)]\<rparr>" "JNum 50"]
    step_three_states [of "\<lparr>cls = HorizontalSpatialDimension, properties = [DIM_STEP_PROP \<mapsto> JNum (100::int)]\<rparr>"]
    step_three_states [of "\<lparr>cls = HorizontalSpatialDimension, properties = (Map.empty :: int props)\<rparr>"]
    step_three_states [of "\<lparr>cls = TemporalDimension, properties = [DIM_STEP_PROP \<mapsto> JNum (100::int)]\<rparr>"]
    step_three_states [of "\<lparr>cls = TemporalDimension, properties = (Map.empty :: int props)\<rparr>"]
    step_three_states [of "\<lparr>cls = AdditionalDimension, properties = [DIM_STEP_PROP \<mapsto> JNum (100::int)]\<rparr>"]
    step_three_states [of "\<lparr>cls = AdditionalDimension, properties = (Map.empty :: int props)\<rparr>"]
  by (simp add: fun_upd_twist)

text \<open>
  Claim C4, as the code has it. In each dimension class, every field among
  \<^verbatim>\<open>description\<close>, \<^verbatim>\<open>extent\<close>, \<^verbatim>\<open>values\<close>, \<^verbatim>\<open>unit\<close> and
  \<^verbatim>\<open>reference_system\<close> that the class declares as optional has a setter that removes
  the key, and nothing else, when it is given \<^verbatim>\<open>None\<close>, and that stores exactly the
  value under the key when it is given a value. These are \<^verbatim>\<open>description\<close> in the
  base class; \<^verbatim>\<open>values\<close> and \<^verbatim>\<open>reference_system\<close> in the horizontal class;
  \<^verbatim>\<open>extent\<close>, \<^verbatim>\<open>values\<close>, \<^verbatim>\<open>unit\<close> and \<^verbatim>\<open>reference_system\<close> in the vertical
  and the additional class; \<^verbatim>\<open>extent\<close> and \<^verbatim>\<open>values\<close> in the temporal class. In the
  horizontal class \<^verbatim>\<open>extent\<close> is a required field (its getter goes through
  \<^verbatim>\<open>get_required\<close>) and its setter stores what it is given, \<^verbatim>\<open>None\<close> included.
  Among the optional fields, the one whose setter keeps the key is \<^verbatim>\<open>step\<close>: given
  \<^verbatim>\<open>None\<close>, it stores the null.
\<close>

theorem optional_setters_delete_on_absent:
  fixes self :: "'n Dimension"
  assumes "v \<noteq> JNull"
  shows
    "properties (Dimension_description_setter JNull self) = (properties self)(DIM_DESC_PROP := None) \<and>
     properties (Dimension_description_setter v self) = (properties self)(DIM_DESC_PROP \<mapsto> v) \<and>
     properties (HorizontalSpatialDimension_values_setter JNull self) = (properties self)(DIM_VALUES_PROP := None) \<and>
     properties (HorizontalSpatialDimension_values_setter v self) = (properties self)(DIM_VALUES_PROP \<mapsto> v) \<and>
     properties (HorizontalSpatialDimension_reference_system_setter JNull self) = (properties self)(DIM_REF_SYS_PROP := None) \<and>
     properties (HorizontalSpatialDimension_reference_system_setter v self) = (properties self)(DIM_REF_SYS_PROP \<mapsto> v) \<and>
     properties (VerticalSpatialDimension_extent_setter JNull self) = (properties self)(DIM_EXTENT_PROP := None) \<and>
     properties (VerticalSpatialDimension_extent_setter v self) = (properties self)(DIM_EXTENT_PROP \<mapsto> v) \<and>
     properties (VerticalSpatialDimension_values_setter JNull self) = (properties self)(DIM_VALUES_PROP := None) \<and>
     properties (VerticalSpatialDimension_values_setter v self) = (properties self)(DIM_VALUES_PROP \<mapsto> v) \<and>
     properties (VerticalSpatialDimension_unit_setter JNull self) = (properties self)(DIM_UNIT_PROP := None) \<and>
     properties (VerticalSpatialDimension_unit_setter v self) = (properties self)(DIM_UNIT_PROP \<mapsto> v) \<and>
     properties (VerticalSpatialDimension_reference_system_setter JNull self) = (properties self)(DIM_REF_SYS_PROP := None) \<and>
     properties (VerticalSpatialDimension_reference_system_setter v self) = (properties self)(DIM_REF_SYS_PROP \<mapsto> v) \<and>
     properties (TemporalDimension_extent_setter JNull self) = (properties self)(DIM_EXTENT_PROP := None) \<and>
     properties (TemporalDimension_extent_setter v self) = (properties self)(DIM_EXTENT_PROP \<mapsto> v) \<and>
     properties (TemporalDimension_values_setter JNull self) = (properties self)(DIM_VALUES_PROP := None) \<and>
     properties (TemporalDimension_values_setter v self) = (properties self)(DIM_VALUES_PROP \<mapsto> v) \<and>
     properties (AdditionalDimension_extent_setter JNull self) = (properties self)(DIM_EXTENT_PROP := None) \<and>
     properties (AdditionalDimension_extent_setter v self) = (properties self)(DIM_EXTENT_PROP \<mapsto> v) \<and>
     properties (AdditionalDimension_values_setter JNull self) = (properties self)(DIM_VALUES_PROP := None) \<and>
     properties (AdditionalDimension_values_setter v self) = (properties self)(DIM_VALUES_PROP \<mapsto> v) \<and>
     properties (AdditionalDimension_unit_setter JNull self) = (properties self)(DIM_UNIT_PROP := None) \<and>
     properties (AdditionalDimension_unit_setter v self) = (properties self)(DIM_UNIT_PROP \<mapsto> v) \<and>
     properties (AdditionalDimension_reference_system_setter JNull self) = (properties self)(DIM_REF_SYS_PROP := None) \<and>
     properties (AdditionalDimension_reference_system_setter v self) = (properties self)(DIM_REF_SYS_PROP \<mapsto> v) \<and>
     properties (HorizontalSpatialDimension_extent_setter JNull self) = (properties self)(DIM_EXTENT_PROP \<mapsto> JNull) \<and>
     properties (HorizontalSpatialDimension_extent_setter v self) = (properties self)(DIM_EXTENT_PROP \<mapsto> v) \<and>
     properties (HorizontalSpatialDimension_step_setter JNull self) = (properties self)(DIM_STEP_PROP \<mapsto> JNull) \<and>
     properties (VerticalSpatialDimension_step_setter JNull self) = (properties self)(DIM_STEP_PROP \<mapsto> JNull) \<and>
     properties (TemporalDimension_step_setter JNull self) = (properties self)(DIM_STEP_PROP \<mapsto> JNull) \<and>
     properties (AdditionalDimension_step_setter JNull self) = (properties self)(DIM_STEP_PROP \<mapsto> JNull)"
  using assms
  by (simp add: HorizontalSpatialDimension_extent_setter_def
        Dimension_description_setter_def HorizontalSpatialDimension_values_setter_def
        HorizontalSpatialDimension_reference_system_setter_def
        VerticalSpatialDimension_extent_setter_def
        VerticalSpatialDimension_values_setter_def
        VerticalSpatialDimension_unit_setter_def
        VerticalSpatialDimension_reference_system_setter_def
        TemporalDimension_extent_setter_def TemporalDimension_values_setter_def
        AdditionalDimension_extent_setter_def AdditionalDimension_values_setter_def
        AdditionalDimension_unit_setter_def
        AdditionalDimension_reference_system_setter_def
        HorizontalSpatialDimension_step_setter_def
        VerticalSpatialDimension_step_setter_def TemporalDimension_step_setter_def
        AdditionalDimension_step_setter_def)

theorem optional_setters_delete_on_absent_witness:
  "JStr ''hPa'' \<noteq> (JNull :: int json) \<and>
   properties (VerticalSpatialDimension_unit_setter (JStr ''hPa'')
      \<lparr>cls = VerticalSpatialDimension, properties = [DIM_UNIT_PROP \<mapsto> (JStr ''Pa'' :: int json)]\<rparr>)
      DIM_UNIT_PROP = Some (JStr ''hPa'') \<and>
   properties (VerticalSpatialDimension_unit_setter JNull
      \<lparr>cls = VerticalSpatialDimension, properties = [DIM_UNIT_PROP \<mapsto> (JStr ''Pa'' :: int json)]\<rparr>)
      DIM_UNIT_PROP = None \<and>
   properties (VerticalSpatialDimension_step_setter JNull
      \<lparr>cls = VerticalSpatialDimension, properties = [DIM_UNIT_PROP \<mapsto> (JStr ''Pa'' :: int json)]\<rparr>)
      DIM_STEP_PROP = Some JNull \<and>
   properties (Dimension_description_setter (JStr ''easting'')
      \<lparr>cls = HorizontalSpatialDimension,
       properties = [DIM_TYPE_PROP \<mapsto> JStr ''spatial'', DIM_AXIS_PROP \<mapsto> JStr ''x'',
         DIM_EXTENT_PROP \<mapsto> JList [JNum 0, JNum (100::int)]]\<rparr>) DIM_DESC_PROP = Some (JStr ''easting'') \<and>
   properties (HorizontalSpatialDimension_extent_setter (JList [JNum 5, JNum 6])
      \<lparr>cls = HorizontalSpatialDimension,
       properties = [DIM_TYPE_PROP \<mapsto> JStr ''spatial'', DIM_AXIS_PROP \<mapsto> JStr ''x'',
         DIM_EXTENT_PROP \<mapsto> JList [JNum 0, JNum (100::int)]]\<rparr>) DIM_EXTENT_PROP = Some (JList [JNum 5, JNum 6])"
  using
    optional_setters_delete_on_absent
      [of "JStr ''hPa''"
          "\<lparr>cls = VerticalSpatialDimension, properties = [DIM_UNIT_PROP \<mapsto> (JStr ''Pa'' :: int json)]\<rparr>"]
    optional_setters_delete_on_absent
      [of "JStr ''easting''"
          "\<lparr>cls = HorizontalSpatialDimension,
       properties = [DIM_TYPE_PROP \<mapsto> JStr ''spatial'', DIM_AXIS_PROP \<mapsto> JStr ''x'',
         DIM_EXTENT_PROP \<mapsto> JList [JNum 0, JNum (100::int)]]\<rparr>"]
    optional_setters_delete_on_absent
      [of "JList [JNum 5, JNum 6]"
          "\<lparr>cls = HorizontalSpatialDimension,
       properties = [DIM_TYPE_PROP \<mapsto> JStr ''spatial'', DIM_AXIS_PROP \<mapsto> JStr ''x'',
         DIM_EXTENT_PROP \<mapsto> JList [JNum 0, JNum (100::int)]]\<rparr>"]
  by simp

text \<open>
  On a horizontal view with the extent \<^verbatim>\<open>[0, 100]\<close>, assigning \<^verbatim>\<open>None\<close> to
  \<^verbatim>\<open>extent\<close> keeps the key, with the value null.
\<close>

theorem horizontal_extent_setter_counterexample:
  "DIM_EXTENT_PROP \<in> dom (properties (HorizontalSpatialDimension_extent_setter JNull
      \<lparr>cls = HorizontalSpatialDimension,
       properties = [DIM_TYPE_PROP \<mapsto> JStr ''spatial'', DIM_AXIS_PROP \<mapsto> JStr ''x'',
         DIM_EXTENT_PROP \<mapsto> JList [JNum 0, JNum (100::int)]]\<rparr>)) \<and>
   properties (HorizontalSpatialDimension_extent_setter JNull
      \<lparr>cls = HorizontalSpatialDimension,
       properties = [DIM_TYPE_PROP \<mapsto> JStr ''spatial'', DIM_AXIS_PROP \<mapsto> JStr ''x'',
         DIM_EXTENT_PROP \<mapsto> JList [JNum 0, JNum (100::int)]]\<rparr>) DIM_EXTENT_PROP = Some JNull"
  by (simp add: HorizontalSpatialDimension_extent_setter_def)

text \<open>
  Claim C10. In the horizontal and in the vertical class, assigning a string to
  \<^verbatim>\<open>axis\<close> stores the string under the key \<^verbatim>\<open>type\<close> and changes nothing else, so
  the key \<^verbatim>\<open>axis\<close> keeps what it had. Reading \<^verbatim>\<open>axis\<close> right after the
  assignment gives what it gave before (the axis stored before, when there is one),
  and reading \<^verbatim>\<open>dim_type\<close> gives the string assigned.
\<close>

theorem axis_setter_writes_type:
  fixes self :: "'n Dimension"
  shows
    "properties (HorizontalSpatialDimension_axis_setter (JStr v) self)
       = (properties self)(DIM_TYPE_PROP \<mapsto> JStr v) \<and>
     properties (HorizontalSpatialDimension_axis_setter (JStr v) self) DIM_AXIS_PROP
       = properties self DIM_AXIS_PROP \<and>
     HorizontalSpatialDimension_axis (HorizontalSpatialDimension_axis_setter (JStr v) self)
       = HorizontalSpatialDimension_axis self \<and>
     Dimension_dim_type (HorizontalSpatialDimension_axis_setter (JStr v) self) = Inr (JStr v) \<and>
     (properties self DIM_AXIS_PROP = Some a \<and> a \<noteq> JNull \<longrightarrow>
        HorizontalSpatialDimension_axis (HorizontalSpatialDimension_axis_setter (JStr v) self) = Inr a) \<and>
     properties (VerticalSpatialDimension_axis_setter (JStr v) self)
       = (properties self)(DIM_TYPE_PROP \<mapsto> JStr v) \<and>
     properties (VerticalSpatialDimension_axis_setter (JStr v) self) DIM_AXIS_PROP
       = properties self DIM_AXIS_PROP \<and>
     VerticalSpatialDimension_axis (VerticalSpatialDimension_axis_setter (JStr v) self)
       = VerticalSpatialDimension_axis self \<and>
     Dimension_dim_type (VerticalSpatialDimension_axis_setter (JStr v) self) = Inr (JStr v) \<and>
     (properties self DIM_AXIS_PROP = Some a \<and> a \<noteq> JNull \<longrightarrow>
        VerticalSpatialDimension_axis (VerticalSpatialDimension_axis_setter (JStr v) self) = Inr a)"
  by (simp add: HorizontalSpatialDimension_axis_setter_def HorizontalSpatialDimension_axis_def
        VerticalSpatialDimension_axis_setter_def VerticalSpatialDimension_axis_def
        Dimension_dim_type_def get_required_def dict_get_def)

theorem axis_setter_writes_type_witness:
  "HorizontalSpatialDimension_axis (HorizontalSpatialDimension_axis_setter (JStr ''y'')
      \<lparr>cls = HorizontalSpatialDimension,
       properties = [DIM_TYPE_PROP \<mapsto> JStr ''spatial'', DIM_AXIS_PROP \<mapsto> (JStr ''x'' :: int json)]\<rparr>)
     = Inr (JStr ''x'') \<and>
   Dimension_dim_type (HorizontalSpatialDimension_axis_setter (JStr ''y'')
      \<lparr>cls = HorizontalSpatialDimension,
       properties = [DIM_TYPE_PROP \<mapsto> JStr ''spatial'', DIM_AXIS_PROP \<mapsto> (JStr ''x'' :: int json)]\<rparr>)
     = Inr (JStr ''y'') \<and>
   VerticalSpatialDimension_axis (VerticalSpatialDimension_axis_setter (JStr ''y'')
      \<lparr>cls = VerticalSpatialDimension,
       properties = [DIM_TYPE_PROP \<mapsto> JStr ''spatial'', DIM_AXIS_PROP \<mapsto> (JStr ''z'' :: int json)]\<rparr>)
     = Inr (JStr ''z'') \<and>
   Dimension_dim_type (VerticalSpatialDimension_axis_setter (JStr ''y'')
      \<lparr>cls = VerticalSpatialDimension,
       properties = [DIM_TYPE_PROP \<mapsto> JStr ''spatial'', DIM_AXIS_PROP \<mapsto> (JStr ''z'' :: int json)]\<rparr>)
     = Inr (JStr ''y'')"
  using
    axis_setter_writes_type [of "''y''"
      "\<lparr>cls = HorizontalSpatialDimension,
        properties = [DIM_TYPE_PROP \<mapsto> JStr ''spatial'', DIM_AXIS_PROP \<mapsto> (JStr ''x'' :: int json)]\<rparr>"
      "JStr ''x''"]
    axis_setter_writes_type [of "''y''"
      "\<lparr>cls = VerticalSpatialDimension,
        properties = [DIM_TYPE_PROP \<mapsto> JStr ''spatial'', DIM_AXIS_PROP \<mapsto> (JStr ''z'' :: int json)]\<rparr>"
      "JStr ''z''"]
  by (simp add: HorizontalSpatialDimension_axis_def VerticalSpatialDimension_axis_def
        get_required_def dict_get_def)

section \<open>Round trip\<close>

text \<open>
  Claim C5. A dimension view that \<^verbatim>\<open>Dimension.from_dict\<close> builds from a mapping, and
  the variable view that \<^verbatim>\<open>Variable.from_dict\<close> builds from it, give the mapping back
  from \<^verbatim>\<open>to_dict\<close> when no field has been written.
\<close>

theorem round_trip:
  fixes d :: "'n props"
  shows
    "(\<forall>view. Dimension_from_dict d = Inr view \<longrightarrow> Dimension_to_dict view = d) \<and>
     Variable_to_dict (Variable_from_dict d) = d"
  by (auto simp add: Dimension_from_dict_def Dimension_to_dict_def Let_def
        Variable_to_dict_def Variable_from_dict_def split: if_splits)

theorem round_trip_witness:
  "Dimension_from_dict [DIM_TYPE_PROP \<mapsto> JStr ''temporal'', DIM_STEP_PROP \<mapsto> (JNull :: int json)]
     = Inr \<lparr>cls = TemporalDimension,
            properties = [DIM_TYPE_PROP \<mapsto> JStr ''temporal'', DIM_STEP_PROP \<mapsto> JNull]\<rparr> \<and>
   Dimension_to_dict \<lparr>cls = TemporalDimension,
      properties = [DIM_TYPE_PROP \<mapsto> JStr ''temporal'', DIM_STEP_PROP \<mapsto> (JNull :: int json)]\<rparr>
     = [DIM_TYPE_PROP \<mapsto> JStr ''temporal'', DIM_STEP_PROP \<mapsto> JNull]"
  using round_trip [of "[DIM_TYPE_PROP \<mapsto> JStr ''temporal'', DIM_STEP_PROP \<mapsto> (JNull :: int json)]"]
  by (simp add: Dimension_from_dict_def dict_get_def)

section \<open>Variable views\<close>

text \<open>The getter of \<^verbatim>\<open>dimensions\<close> raises on every view, whatever the mapping holds.\<close>

lemma Variable_dimensions_raises: "Variable_dimensions self = Inl TypeError"
  by (simp add: Variable_dimensions_def)

text \<open>
  Claim C6. On the variable mapping
  \<^verbatim>\<open>{"type": "data", "dimensions": ["time", "y", "x"], "unit": "degrees C", "extent": [0, 100]}\<close>
  the view reports \<^verbatim>\<open>var_type\<close> \<^verbatim>\<open>"data"\<close>, \<^verbatim>\<open>unit\<close> \<^verbatim>\<open>"degrees C"\<close> and
  \<^verbatim>\<open>extent\<close> \<^verbatim>\<open>[0, 100]\<close>. The getter of \<^verbatim>\<open>dimensions\<close> does not report the
  sequence stored: it raises \<^verbatim>\<open>TypeError\<close>.
\<close>

theorem variable_scenario:
  "Variable_var_type (Variable_from_dict
      [VAR_TYPE_PROP \<mapsto> JStr ''data'',
       VAR_DIMS_PROP \<mapsto> JList [JStr ''time'', JStr ''y'', JStr ''x''],
       VAR_UNIT_PROP \<mapsto> JStr ''degrees C'',
       VAR_EXTENT_PROP \<mapsto> JList [JNum 0, JNum (100::int)]]) = Inr (JStr ''data'') \<and>
   Variable_unit (Variable_from_dict
      [VAR_TYPE_PROP \<mapsto> JStr ''data'',
       VAR_DIMS_PROP \<mapsto> JList [JStr ''time'', JStr ''y'', JStr ''x''],
       VAR_UNIT_PROP \<mapsto> JStr ''degrees C'',
       VAR_EXTENT_PROP \<mapsto> JList [JNum 0, JNum (100::int)]]) = JStr ''degrees C'' \<and>
   Variable_extent (Variable_from_dict
      [VAR_TYPE_PROP \<mapsto> JStr ''data'',
       VAR_DIMS_PROP \<mapsto> JList [JStr ''time'', JStr ''y'', JStr ''x''],
       VAR_UNIT_PROP \<mapsto> JStr ''degrees C'',
       VAR_EXTENT_PROP \<mapsto> JList [JNum 0, JNum (100::int)]]) = JList [JNum 0, JNum 100] \<and>
   Variable_dimensions (Variable_from_dict
      [VAR_TYPE_PROP \<mapsto> JStr ''data'',
       VAR_DIMS_PROP \<mapsto> JList [JStr ''time'', JStr ''y'', JStr ''x''],
       VAR_UNIT_PROP \<mapsto> JStr ''degrees C'',
       VAR_EXTENT_PROP \<mapsto> JList [JNum 0, JNum (100::int)]]) = Inl TypeError"
  by (simp add: Variable_var_type_def Variable_unit_def Variable_extent_def
        Variable_dimensions_def Variable_from_dict_def get_required_def dict_get_def)

text \<open>
  Claim C7, as the code has it. For each of the optional fields \<^verbatim>\<open>description\<close>,
  \<^verbatim>\<open>extent\<close>, \<^verbatim>\<open>unit\<close>, \<^verbatim>\<open>shape\<close>, \<^verbatim>\<open>chunks\<close> and \<^verbatim>\<open>attrs\<close> of a
  variable view, the setter removes the key when it is given \<^verbatim>\<open>None\<close> and stores the
  value under the key otherwise. The setter of \<^verbatim>\<open>step\<close> stores what it is given:
  given \<^verbatim>\<open>None\<close>, it leaves the key present with the value null.
\<close>

theorem variable_setters:
  fixes self :: "'n Variable"
  assumes "v \<noteq> JNull"
  shows
    "var_properties (Variable_description_setter JNull self) = (var_properties self)(VAR_DESC_PROP := None) \<and>
     var_properties (Variable_description_setter v self) = (var_properties self)(VAR_DESC_PROP \<mapsto> v) \<and>
     var_properties (Variable_extent_setter JNull self) = (var_properties self)(VAR_EXTENT_PROP := None) \<and>
     var_properties (Variable_extent_setter v self) = (var_properties self)(VAR_EXTENT_PROP \<mapsto> v) \<and>
     var_properties (Variable_unit_setter JNull self) = (var_properties self)(VAR_UNIT_PROP := None) \<and>
     var_properties (Variable_unit_setter v self) = (var_properties self)(VAR_UNIT_PROP \<mapsto> v) \<and>
     var_properties (Variable_shape_setter JNull self) = (var_properties self)(VAR_SHAPE_PROP := None) \<and>
     var_properties (Variable_shape_setter v self) = (var_properties self)(VAR_SHAPE_PROP \<mapsto> v) \<and>
     var_properties (Variable_chunks_setter JNull self) = (var_properties self)(VAR_CHUNKS_PROP := None) \<and>
     var_properties (Variable_chunks_setter v self) = (var_properties self)(VAR_CHUNKS_PROP \<mapsto> v) \<and>
     var_properties (Variable_attrs_setter JNull self) = (var_properties self)(VAR_ATTRS_PROP := None) \<and>
     var_properties (Variable_attrs_setter v self) = (var_properties self)(VAR_ATTRS_PROP \<mapsto> v) \<and>
     var_properties (Variable_step_setter JNull self) = (var_properties self)(VAR_STEP_PROP \<mapsto> JNull) \<and>
     var_properties (Variable_step_setter v self) = (var_properties self)(VAR_STEP_PROP \<mapsto> v)"
  using assms
  by (simp add: Variable_description_setter_def Variable_extent_setter_def
        Variable_unit_setter_def Variable_shape_setter_def Variable_chunks_setter_def
        Variable_attrs_setter_def Variable_step_setter_def)

theorem variable_setters_witness:
  "JStr ''K'' \<noteq> (JNull :: int json) \<and>
   var_properties (Variable_unit_setter (JStr ''K'')
      \<lparr>var_properties = [VAR_UNIT_PROP \<mapsto> (JStr ''degrees C'' :: int json)]\<rparr>) VAR_UNIT_PROP
     = Some (JStr ''K'') \<and>
   var_properties (Variable_unit_setter JNull
      \<lparr>var_properties = [VAR_UNIT_PROP \<mapsto> (JStr ''degrees C'' :: int json)]\<rparr>) VAR_UNIT_PROP
     = None \<and>
   var_properties (Variable_step_setter JNull
      \<lparr>var_properties = [VAR_UNIT_PROP \<mapsto> (JStr ''degrees C'' :: int json)]\<rparr>) VAR_STEP_PROP
     = Some JNull"
  using variable_setters
    [of "JStr ''K''" "\<lparr>var_properties = [VAR_UNIT_PROP \<mapsto> (JStr ''degrees C'' :: int json)]\<rparr>"]
  by simp

text \<open>Assigning \<^verbatim>\<open>None\<close> to \<^verbatim>\<open>step\<close> of a variable view keeps the key.\<close>

theorem variable_step_setter_counterexample:
  "VAR_STEP_PROP \<in> dom (var_properties (Variable_step_setter JNull
      \<lparr>var_properties = [VAR_STEP_PROP \<mapsto> JNum (1::int)]\<rparr>)) \<and>
   var_properties (Variable_step_setter JNull
      \<lparr>var_properties = [VAR_STEP_PROP \<mapsto> JNum (1::int)]\<rparr>) VAR_STEP_PROP = Some JNull"
  by (simp add: Variable_step_setter_def)

section \<open>The extension facade\<close>

text \<open>
  Claim C8. The factory \<^verbatim>\<open>ext\<close> returns the collection facade over the collection's
  \<^verbatim>\<open>extra_fields\<close> for a collection, the item facade over the item's
  \<^verbatim>\<open>properties\<close> for an item and the asset facade over the asset's
  \<^verbatim>\<open>properties\<close> for an asset; for an object of any other class it fails with an
  extension-type error.
\<close>

theorem ext_dispatch:
  "DatacubeExtension_ext (CollectionObj collection)
     = Inr (CollectionDatacubeExtension collection (extra_fields collection)) \<and>
   DatacubeExtension_ext (ItemObj item)
     = Inr (ItemDatacubeExtension item (item_properties item)) \<and>
   (\<exists>extra. DatacubeExtension_ext (AssetObj asset)
     = Inr (AssetDatacubeExtension (href asset) (asset_properties asset) extra)) \<and>
   DatacubeExtension_ext (OtherObj type_obj)
     = Inl (ExtensionTypeError (''Datacube extension does not apply to type '' @ type_obj))"
  by (simp add: DatacubeExtension_ext_def CollectionDatacubeExtension_init_def
        ItemDatacubeExtension_init_def AssetDatacubeExtension_init_def)

text \<open>
  Claim C9. For every asset the factory succeeds, and the asset facade wraps the
  asset's own property mapping. Its list of fallback mappings for reads holds the
  owning item's property mapping when the owner of the asset is an item, and the list
  is not assigned otherwise: an asset with no owner gets no fallback and no failure.
\<close>

theorem asset_facade:
  "DatacubeExtension_ext (AssetObj asset) = Inr (AssetDatacubeExtension_init asset) \<and>
   facade_properties (AssetDatacubeExtension_init asset) = asset_properties asset \<and>
   (\<forall>item. owner asset = Some (OwnerItem item) \<longrightarrow>
      additional_read_properties (AssetDatacubeExtension_init asset) = Some [item_properties item]) \<and>
   ((\<forall>item. owner asset \<noteq> Some (OwnerItem item)) \<longrightarrow>
      additional_read_properties (AssetDatacubeExtension_init asset) = None) \<and>
   (owner asset = None \<longrightarrow>
      additional_read_properties (AssetDatacubeExtension_init asset) = None)"
  by (auto simp add: DatacubeExtension_ext_def AssetDatacubeExtension_init_def
        split: option.splits owner_obj.splits)

theorem asset_facade_witness:
  "additional_read_properties (AssetDatacubeExtension_init
      \<lparr>href = ''data.nc'', asset_properties = 1,
       owner = Some (OwnerItem \<lparr>item_id = ''item'', item_properties = 2\<rparr>)\<rparr>) = Some [2] \<and>
   additional_read_properties (AssetDatacubeExtension_init
      \<lparr>href = ''data.nc'', asset_properties = 1,
       owner = Some (OwnerCollection \<lparr>collection_id = ''c'', extra_fields = 3\<rparr>)\<rparr>) = None \<and>
   additional_read_properties (AssetDatacubeExtension_init
      \<lparr>href = ''data.nc'', asset_properties = 1, owner = None\<rparr>) = None \<and>
   DatacubeExtension_ext (AssetObj \<lparr>href = ''data.nc'', asset_properties = 1, owner = None\<rparr>)
     = Inr (AssetDatacubeExtension_init \<lparr>href = ''data.nc'', asset_properties = 1, owner = None\<rparr>)"
  using
    asset_facade [of "\<lparr>href = ''data.nc'', asset_properties = 1,
       owner = Some (OwnerItem \<lparr>item_id = ''item'', item_properties = 2\<rparr>)\<rparr>"]
    asset_facade [of "\<lparr>href = ''data.nc'', asset_properties = 1,
       owner = Some (OwnerCollection \<lparr>collection_id = ''c'', extra_fields = 3\<rparr>)\<rparr>"]
    asset_facade [of "\<lparr>href = ''data.nc'', asset_properties = 1, owner = None\<rparr>"]
  by simp

end
